theory Spec2Isabelle
  imports Main "HOL-Library.Log_Nat"
begin

section \<open>JavaScript numbers\<close>

text \<open>
  Prices and monetary figures are JavaScript numbers (IEEE 754 binary64). A finite number
  is represented by the rational it denotes; every arithmetic operation computes the exact
  rational result and rounds it to the nearest binary64 value, ties to even (\<open>fl\<close>).
  Subnormal spacing is modelled; overflow to \<open>Infinity\<close> is not: the model covers
  magnitudes below \<open>2^1024\<close>.
\<close>

definition pow2 :: "int \<Rightarrow> rat" where
  "pow2 k = (if 0 \<le> k then 2 ^ nat k else 1 / 2 ^ nat (- k))"

text \<open>\<open>ilog2 x\<close> is the binary exponent \<open>\<lfloor>log\<^sub>2 \<bar>x\<bar>\<rfloor>\<close> of a non-zero rational.\<close>

definition ilog2 :: "rat \<Rightarrow> int" where
  "ilog2 x =
     (let a = \<bar>x\<bar>;
          d = bitlen (fst (quotient_of a)) - bitlen (snd (quotient_of a))
      in if pow2 d \<le> a then d else d - 1)"

definition roundTiesToEven :: "rat \<Rightarrow> int" where
  "roundTiesToEven x =
     (let f = \<lfloor>x\<rfloor>; r = x - of_int f
      in if r < 1 / 2 then f else if 1 / 2 < r then f + 1 else if even f then f else f + 1)"

text \<open>Rounding to binary64: 53 significant bits, least exponent \<open>-1022\<close>.\<close>

definition fl :: "rat \<Rightarrow> rat" where
  "fl x = (if x = 0 then 0
           else let u = pow2 (max (ilog2 x) (- 1022) - 52)
                in of_int (roundTiesToEven (x / u)) * u)"

text \<open>The four operations the routes use, and the literals \<open>0.08\<close> and \<open>9.99\<close>.\<close>

definition js_add :: "rat \<Rightarrow> rat \<Rightarrow> rat" where
  "js_add a b = fl (a + b)"

definition js_mul :: "rat \<Rightarrow> rat \<Rightarrow> rat" where
  "js_mul a b = fl (a * b)"

definition js_div :: "rat \<Rightarrow> rat \<Rightarrow> rat" where
  "js_div a b = fl (a / b)"

text \<open>\<open>Math.round\<close>: the nearest integer, a tie going towards \<open>+\<infinity>\<close>.\<close>

definition Math_round :: "rat \<Rightarrow> rat" where
  "Math_round x = of_int \<lfloor>x + 1 / 2\<rfloor>"

definition taxRate :: rat where
  "taxRate = fl (8 / 100)"

definition shippingFee :: rat where
  "shippingFee = fl (999 / 100)"

text \<open>The expression \<open>Math.round(v * 100) / 100\<close> of \<open>POST /cart/validate\<close>.\<close>

definition round2 :: "rat \<Rightarrow> rat" where
  "round2 v = js_div (Math_round (js_mul v 100)) 100"

section \<open>Data model\<close>

record variant =
  vsize :: string
  design :: string
  stock :: int

record product =
  product_id :: string
  title :: string
  price :: rat
  active :: bool
  variants :: "variant list"

record variantSel =
  sel_size :: string
  sel_design :: string

text \<open>
  A client-supplied cart line. \<open>item.variant\<close> may be absent from the request body,
  in which case reading \<open>item.variant.size\<close> throws.
\<close>

record cartItem =
  productId :: string
  variant :: "variantSel option"
  quantity :: int

text \<open>
  One validated line, also the line-item snapshot stored in an order. The image URL
  snapshot is presentation data and is left out.
\<close>

record validatedItem =
  item_product :: string
  item_title :: string
  item_price :: rat
  item_quantity :: int
  item_variant :: variantSel

record validatedCart =
  items :: "validatedItem list"
  subtotal :: rat
  tax :: rat
  shipping :: rat
  total :: rat

record paymentInfo =
  pay_status :: string
  amount :: rat
  stripeSessionId :: string
  stripePaymentIntentId :: "string option"
  paidAt :: "nat option"

record historyEntry =
  hist_status :: string
  hist_date :: nat
  hist_note :: string

text \<open>
  An order carries the five figures of the validated cart it was created from
  (\<open>POST /cart/create-checkout-session\<close>), hence the record extension.
\<close>

record order = validatedCart +
  order_id :: string
  user :: string
  paymentInfo :: paymentInfo
  status :: string
  trackingNumber :: "string option"
  order_notes :: "string option"
  statusHistory :: "historyEntry list"

record state =
  orders :: "order list"
  products :: "product list"

section \<open>Persistence\<close>

text \<open>
  \<open>updateFirst P f xs\<close> applies \<open>f\<close> to the first element satisfying \<open>P\<close>:
  the in-place mutation of the element that \<open>Array.prototype.find\<close> returned, and the
  write of a document over the stored one with its \<open>_id\<close>.
\<close>

fun updateFirst :: "('a \<Rightarrow> bool) \<Rightarrow> ('a \<Rightarrow> 'a) \<Rightarrow> 'a list \<Rightarrow> 'a list" where
  "updateFirst P f [] = []"
| "updateFirst P f (x # xs) = (if P x then f x # xs else x # updateFirst P f xs)"

text \<open>
  Modelled from the spec: \<open>models/Product.js\<close> and \<open>models/Order.js\<close> are not among
  the sources. The Catalog Store and the Order Ledger hold documents keyed by \<open>_id\<close>;
  \<open>findById\<close> returns the document with that id or nothing, \<open>findOne\<close> the first
  document matching the query, and \<open>save\<close> persists the document as the handler left
  it, over the stored document with the same id. What else the absent models may do when
  a document is saved is not modelled. An id is a string; a malformed id, for which the
  driver's cast throws, is not told apart from an unknown one.
\<close>

definition Product_findById :: "string \<Rightarrow> state \<Rightarrow> product option" where
  "Product_findById pid st = find (\<lambda>p. product_id p = pid) (products st)"

definition Product_save :: "product \<Rightarrow> state \<Rightarrow> state" where
  "Product_save p st =
     st\<lparr>products := updateFirst (\<lambda>x. product_id x = product_id p) (\<lambda>_. p) (products st)\<rparr>"

definition Order_findById :: "string \<Rightarrow> state \<Rightarrow> order option" where
  "Order_findById oid st = find (\<lambda>x. order_id x = oid) (orders st)"

definition Order_findOne :: "(order \<Rightarrow> bool) \<Rightarrow> state \<Rightarrow> order option" where
  "Order_findOne query st = find query (orders st)"

definition Order_save :: "order \<Rightarrow> state \<Rightarrow> state" where
  "Order_save x st =
     st\<lparr>orders := updateFirst (\<lambda>y. order_id y = order_id x) (\<lambda>_. x) (orders st)\<rparr>"

text \<open>The store invariant of a document collection: \<open>_id\<close> is unique.\<close>

definition uniqueOrderIds :: "state \<Rightarrow> bool" where
  "uniqueOrderIds st = distinct (map order_id (orders st))"

section \<open>Cart validation: \<open>POST /cart/validate\<close>\<close>

datatype cartError =
    ValidationFailed
  | ProductUnavailable string
  | VariantUnavailable string
  | InsufficientStock int string string string

datatype cartResponse =
    CartOk validatedCart
  | CartBadRequest cartError
  | CartServerError

text \<open>The request validators: \<open>isMongoId\<close> and \<open>isInt({min: 1, max: 10})\<close>.\<close>

definition hexDigit :: "char \<Rightarrow> bool" where
  "hexDigit c = (c \<in> set ''0123456789abcdefABCDEF'')"

definition isHexadecimal :: "string \<Rightarrow> bool" where
  "isHexadecimal s =
     (let r = (if take 2 s \<in> {''0x'', ''0X'', ''0h'', ''0H''} then drop 2 s else s)
      in r \<noteq> [] \<and> list_all hexDigit r)"

definition isMongoId :: "string \<Rightarrow> bool" where
  "isMongoId s = (isHexadecimal s \<and> length s = 24)"

definition requestValid :: "cartItem list \<Rightarrow> bool" where
  "requestValid its =
     (its \<noteq> [] \<and> list_all (\<lambda>it. isMongoId (productId it)) its
      \<and> list_all (\<lambda>it. 1 \<le> quantity it \<and> quantity it \<le> 10) its)"

text \<open>
  \<open>product.variants.find(v => v.size === item.variant.size && v.design === item.variant.design)\<close>.
  The callback runs on the first variant, if there is one; with \<open>item.variant\<close> absent
  it throws there (\<open>Inl ()\<close>).
\<close>

definition variantMatches :: "string \<Rightarrow> string \<Rightarrow> variant \<Rightarrow> bool" where
  "variantMatches sz dz v = (vsize v = sz \<and> design v = dz)"

definition findCartVariant :: "variantSel option \<Rightarrow> variant list \<Rightarrow> unit + variant option" where
  "findCartVariant sel vs =
     (case vs of
        [] \<Rightarrow> Inr None
      | _ # _ \<Rightarrow>
          (case sel of
             None \<Rightarrow> Inl ()
           | Some s \<Rightarrow> Inr (find (variantMatches (sel_size s) (sel_design s)) vs)))"

text \<open>
  The \<open>for (const item of items)\<close> loop, with its early returns. The store is threaded
  through, as the handler holds it while it runs.
\<close>

fun validateItems ::
  "cartItem list \<Rightarrow> validatedItem list \<Rightarrow> rat \<Rightarrow> state
     \<Rightarrow> (cartResponse + validatedItem list \<times> rat) \<times> state" where
  "validateItems [] validatedItems sub st = (Inr (validatedItems, sub), st)"
| "validateItems (item # rest) validatedItems sub st =
     (case Product_findById (productId item) st of
        None \<Rightarrow> (Inl (CartBadRequest (ProductUnavailable (productId item))), st)
      | Some p \<Rightarrow>
          if \<not> active p then (Inl (CartBadRequest (ProductUnavailable (productId item))), st)
          else
            (case findCartVariant (variant item) (variants p) of
               Inl _ \<Rightarrow> (Inl CartServerError, st)
             | Inr None \<Rightarrow> (Inl (CartBadRequest (VariantUnavailable (title p))), st)
             | Inr (Some v) \<Rightarrow>
                 if stock v < quantity item
                 then (Inl (CartBadRequest (InsufficientStock (stock v) (title p) (vsize v) (design v))), st)
                 else
                   validateItems rest
                     (validatedItems @
                        [\<lparr>item_product = product_id p, item_title = title p, item_price = price p,
                          item_quantity = quantity item,
                          item_variant = \<lparr>sel_size = vsize v, sel_design = design v\<rparr>\<rparr>])
                     (js_add sub (js_mul (price p) (of_int (quantity item))))
                     st))"

definition cartTax :: "rat \<Rightarrow> rat" where
  "cartTax sub = js_mul sub taxRate"

definition cartShipping :: "rat \<Rightarrow> rat" where
  "cartShipping sub = (if 50 \<le> sub then 0 else shippingFee)"

definition cartTotal :: "rat \<Rightarrow> rat" where
  "cartTotal sub = js_add (js_add sub (cartTax sub)) (cartShipping sub)"

definition cartValidate :: "cartItem list \<Rightarrow> state \<Rightarrow> cartResponse \<times> state" where
  "cartValidate its st =
     (if \<not> requestValid its then (CartBadRequest ValidationFailed, st)
      else
        (case validateItems its [] 0 st of
           (Inl response, st') \<Rightarrow> (response, st')
         | (Inr (validatedItems, sub), st') \<Rightarrow>
             (CartOk \<lparr>items = validatedItems,
                      subtotal = round2 sub,
                      tax = round2 (cartTax sub),
                      shipping = round2 (cartShipping sub),
                      total = round2 (cartTotal sub)\<rparr>, st')))"

text \<open>
  The subtotal as the validation algorithm defines it: the running sum of unit price times
  quantity over the lines, with the catalog's price.
\<close>

definition linePrice :: "state \<Rightarrow> cartItem \<Rightarrow> rat" where
  "linePrice st it =
     (case Product_findById (productId it) st of
        None \<Rightarrow> 0
      | Some p \<Rightarrow> js_mul (price p) (of_int (quantity it)))"

definition cartSubtotal :: "state \<Rightarrow> cartItem list \<Rightarrow> rat" where
  "cartSubtotal st its = foldl (\<lambda>sub it. js_add sub (linePrice st it)) 0 its"

text \<open>
  The total as the specification words it: each of subtotal, tax and shipping rounded to
  two decimal places, summed, and the sum rounded again.
\<close>

definition specTotal :: "rat \<Rightarrow> rat" where
  "specTotal sub =
     round2 (js_add (js_add (round2 sub) (round2 (cartTax sub))) (round2 (cartShipping sub)))"

section \<open>Payment reconciliation: \<open>POST /webhook/stripe\<close>\<close>

text \<open>
  \<open>event.data.object\<close>: a checkout session (\<open>id\<close>, \<open>metadata.orderId\<close>,
  \<open>payment_intent\<close>) or a payment intent (\<open>id\<close>).
\<close>

record eventObject =
  obj_id :: string
  metadata_orderId :: "string option"
  payment_intent :: "string option"

record event =
  event_type :: string
  data_object :: eventObject

record webhookRequest =
  raw_body :: string
  stripe_signature :: "string option"

datatype webhookResponse =
    Received
  | WebhookError string
  | WebhookProcessingFailed

definition itemMatches :: "validatedItem \<Rightarrow> variant \<Rightarrow> bool" where
  "itemMatches item = variantMatches (sel_size (item_variant item)) (sel_design (item_variant item))"

text \<open>
  One iteration of \<open>for (const item of order.items)\<close>: the product is fetched again,
  the variant looked up, and \<open>variant.stock -= item.quantity\<close> applied and saved only
  under the guard \<open>variant && variant.stock >= item.quantity\<close>.
\<close>

definition updateItemStock :: "validatedItem \<Rightarrow> state \<Rightarrow> state" where
  "updateItemStock item st =
     (case Product_findById (item_product item) st of
        None \<Rightarrow> st
      | Some p \<Rightarrow>
          (case find (itemMatches item) (variants p) of
             None \<Rightarrow> st
           | Some v \<Rightarrow>
               if item_quantity item \<le> stock v
               then Product_save
                      (p\<lparr>variants :=
                           updateFirst (itemMatches item)
                             (\<lambda>v. v\<lparr>stock := stock v - item_quantity item\<rparr>) (variants p)\<rparr>) st
               else st))"

fun updateProductStock :: "validatedItem list \<Rightarrow> state \<Rightarrow> state" where
  "updateProductStock [] st = st"
| "updateProductStock (item # rest) st = updateProductStock rest (updateItemStock item st)"

text \<open>\<open>now\<close> is the value of \<open>new Date()\<close>. An unknown order is logged and ignored.\<close>

definition handleCheckoutSessionCompleted :: "eventObject \<Rightarrow> nat \<Rightarrow> state \<Rightarrow> state" where
  "handleCheckoutSessionCompleted session now st =
     (case metadata_orderId session of
        None \<Rightarrow> st
      | Some orderId \<Rightarrow>
          (case Order_findById orderId st of
             None \<Rightarrow> st
           | Some ord \<Rightarrow>
               let ord' = ord\<lparr>paymentInfo := (paymentInfo ord)
                                 \<lparr>pay_status := ''paid'',
                                  stripePaymentIntentId := payment_intent session,
                                  paidAt := Some now\<rparr>,
                               status := ''confirmed''\<rparr>
               in updateProductStock (items ord') (Order_save ord' st)))"

definition handlePaymentIntentSucceeded :: "eventObject \<Rightarrow> nat \<Rightarrow> state \<Rightarrow> state" where
  "handlePaymentIntentSucceeded paymentIntent now st =
     (case Order_findOne
             (\<lambda>x. stripePaymentIntentId (paymentInfo x) = Some (obj_id paymentIntent)) st of
        None \<Rightarrow> st
      | Some ord \<Rightarrow>
          Order_save
            (ord\<lparr>paymentInfo := (paymentInfo ord)\<lparr>pay_status := ''paid'', paidAt := Some now\<rparr>,
                 status := (if status ord = ''pending'' then ''confirmed'' else status ord)\<rparr>) st)"

definition handlePaymentIntentFailed :: "eventObject \<Rightarrow> state \<Rightarrow> state" where
  "handlePaymentIntentFailed paymentIntent st =
     (case Order_findOne
             (\<lambda>x. stripePaymentIntentId (paymentInfo x) = Some (obj_id paymentIntent)) st of
        None \<Rightarrow> st
      | Some ord \<Rightarrow>
          Order_save
            (ord\<lparr>paymentInfo := (paymentInfo ord)\<lparr>pay_status := ''failed''\<rparr>,
                 status := ''cancelled''\<rparr>) st)"

text \<open>
  The endpoint. \<open>constructEvent\<close> is the payment processor's library call
  \<open>stripe.webhooks.constructEvent(body, signature, secret)\<close>, a parameter of the model:
  it returns the parsed event, or throws with a message (\<open>Inl\<close>) when the signature does
  not verify. The handlers catch their own errors, so the 500 answer is never produced.
\<close>

definition stripeWebhook ::
  "(string \<Rightarrow> string option \<Rightarrow> string \<Rightarrow> string + event) \<Rightarrow> string
     \<Rightarrow> webhookRequest \<Rightarrow> nat \<Rightarrow> state \<Rightarrow> webhookResponse \<times> state" where
  "stripeWebhook constructEvent webhookSecret req now st =
     (case constructEvent (raw_body req) (stripe_signature req) webhookSecret of
        Inl message \<Rightarrow> (WebhookError (''Webhook Error: '' @ message), st)
      | Inr ev \<Rightarrow>
          (Received,
           if event_type ev = ''checkout.session.completed''
           then handleCheckoutSessionCompleted (data_object ev) now st
           else if event_type ev = ''payment_intent.succeeded''
           then handlePaymentIntentSucceeded (data_object ev) now st
           else if event_type ev = ''payment_intent.payment_failed''
           then handlePaymentIntentFailed (data_object ev) st
           else st))"

text \<open>The stock of the variant an order line names, and the lines of an order naming it.\<close>

definition itemStock :: "validatedItem \<Rightarrow> state \<Rightarrow> int option" where
  "itemStock item st =
     (case Product_findById (item_product item) st of
        None \<Rightarrow> None
      | Some p \<Rightarrow> map_option stock (find (itemMatches item) (variants p)))"

definition sameVariant :: "validatedItem \<Rightarrow> validatedItem \<Rightarrow> bool" where
  "sameVariant a b =
     (item_product b = item_product a \<and> sel_size (item_variant b) = sel_size (item_variant a)
      \<and> sel_design (item_variant b) = sel_design (item_variant a))"

definition demand :: "validatedItem list \<Rightarrow> validatedItem \<Rightarrow> int" where
  "demand its item = sum_list (map item_quantity (filter (sameVariant item) its))"

definition stockNonNegative :: "state \<Rightarrow> bool" where
  "stockNonNegative st =
     list_all (\<lambda>p. list_all (\<lambda>v. 0 \<le> stock v) (variants p)) (products st)"

text \<open>The guard of the loop body: the line is applied, not skipped.\<close>

definition itemApplies :: "validatedItem \<Rightarrow> state \<Rightarrow> bool" where
  "itemApplies item st =
     (case itemStock item st of None \<Rightarrow> False | Some n \<Rightarrow> item_quantity item \<le> n)"

section \<open>Order routes\<close>

datatype orderResponse =
    Cancelled string string
  | OrderBadRequest string
  | OrderNotFound string

text \<open>\<open>PUT /orders/:id/cancel\<close>, for the authenticated user \<open>uid\<close>.\<close>

definition cancelOrder :: "string \<Rightarrow> string \<Rightarrow> state \<Rightarrow> orderResponse \<times> state" where
  "cancelOrder oid uid st =
     (case Order_findOne (\<lambda>x. order_id x = oid \<and> user x = uid) st of
        None \<Rightarrow> (OrderNotFound ''Order not found'', st)
      | Some ord \<Rightarrow>
          if status ord \<notin> set [''pending'', ''confirmed'']
          then (OrderBadRequest ''Order cannot be cancelled at this stage'', st)
          else
            let ord' = ord\<lparr>status := ''cancelled''\<rparr>
            in (Cancelled (order_id ord') (status ord'), Order_save ord' st))"

section \<open>Example data\<close>

text \<open>\<open>cents n\<close> is the JavaScript number written \<open>n / 100\<close> in decimal.\<close>

definition cents :: "int \<Rightarrow> rat" where
  "cents n = fl (of_int n / 100)"

text \<open>A catalog with one product priced 20.014 and one priced 30.\<close>

definition catalogPrice :: rat where
  "catalogPrice = fl (20014 / 1000)"

definition exampleCatalog :: state where
  "exampleCatalog =
     \<lparr>orders = [],
      products =
        [\<lparr>product_id = ''64b7f0c2a1d3e4f5a6b7c8d9'', title = ''Classic French'',
          price = catalogPrice, active = True,
          variants = [\<lparr>vsize = ''M'', design = ''Classic French'', stock = 35\<rparr>]\<rparr>,
         \<lparr>product_id = ''64b7f0c2a1d3e4f5a6b7c8da'', title = ''Glitter Glam'',
          price = 30, active = True,
          variants = [\<lparr>vsize = ''S'', design = ''Gold Glitter'', stock = 25\<rparr>,
                      \<lparr>vsize = ''M'', design = ''Gold Glitter'', stock = 30\<rparr>]\<rparr>]\<rparr>"

definition priceyCart :: "cartItem list" where
  "priceyCart =
     [\<lparr>productId = ''64b7f0c2a1d3e4f5a6b7c8d9'',
       variant = Some \<lparr>sel_size = ''M'', sel_design = ''Classic French''\<rparr>, quantity = 1\<rparr>]"

definition priceyResult :: validatedCart where
  "priceyResult =
     \<lparr>items = [\<lparr>item_product = ''64b7f0c2a1d3e4f5a6b7c8d9'', item_title = ''Classic French'',
                item_price = catalogPrice, item_quantity = 1,
                item_variant = \<lparr>sel_size = ''M'', sel_design = ''Classic French''\<rparr>\<rparr>],
      subtotal = cents 2001, tax = cents 160, shipping = cents 999, total = cents 3161\<rparr>"

definition glitterCart :: "cartItem list" where
  "glitterCart =
     [\<lparr>productId = ''64b7f0c2a1d3e4f5a6b7c8da'',
       variant = Some \<lparr>sel_size = ''M'', sel_design = ''Gold Glitter''\<rparr>, quantity = 2\<rparr>]"

definition glitterResult :: validatedCart where
  "glitterResult =
     \<lparr>items = [\<lparr>item_product = ''64b7f0c2a1d3e4f5a6b7c8da'', item_title = ''Glitter Glam'',
                item_price = 30, item_quantity = 2,
                item_variant = \<lparr>sel_size = ''M'', sel_design = ''Gold Glitter''\<rparr>\<rparr>],
      subtotal = 60, tax = cents 480, shipping = 0, total = cents 6480\<rparr>"

text \<open>
  Three orders over that catalog: one awaiting payment, one paid and shipped, one paid and
  confirmed.
\<close>

definition classicLine :: validatedItem where
  "classicLine =
     \<lparr>item_product = ''64b7f0c2a1d3e4f5a6b7c8d9'', item_title = ''Classic French'',
      item_price = catalogPrice, item_quantity = 2,
      item_variant = \<lparr>sel_size = ''M'', sel_design = ''Classic French''\<rparr>\<rparr>"

definition glitterLine :: validatedItem where
  "glitterLine =
     \<lparr>item_product = ''64b7f0c2a1d3e4f5a6b7c8da'', item_title = ''Glitter Glam'',
      item_price = 30, item_quantity = 2,
      item_variant = \<lparr>sel_size = ''M'', sel_design = ''Gold Glitter''\<rparr>\<rparr>"

definition pendingOrder :: order where
  "pendingOrder =
     \<lparr>items = [classicLine], subtotal = cents 4003, tax = cents 320, shipping = cents 999,
      total = cents 5322,
      order_id = ''65c1a0000000000000000001'', user = ''65b1a00000000000000000aa'',
      paymentInfo = \<lparr>pay_status = ''pending'', amount = cents 5322,
                      stripeSessionId = ''cs_test_a1'', stripePaymentIntentId = None,
                      paidAt = None\<rparr>,
      status = ''pending'', trackingNumber = None, order_notes = None, statusHistory = []\<rparr>"

definition shippedOrder :: order where
  "shippedOrder =
     \<lparr>items = [glitterLine], subtotal = 60, tax = cents 480, shipping = 0, total = cents 6480,
      order_id = ''65c1a0000000000000000002'', user = ''65b1a00000000000000000bb'',
      paymentInfo = \<lparr>pay_status = ''paid'', amount = cents 6480,
                      stripeSessionId = ''cs_test_b2'', stripePaymentIntentId = Some ''pi_b2'',
                      paidAt = Some 1700000000\<rparr>,
      status = ''shipped'', trackingNumber = Some ''1Z999'', order_notes = None,
      statusHistory = []\<rparr>"

definition paidOrder :: order where
  "paidOrder =
     \<lparr>items = [glitterLine], subtotal = 60, tax = cents 480, shipping = 0, total = cents 6480,
      order_id = ''65c1a0000000000000000003'', user = ''65b1a00000000000000000aa'',
      paymentInfo = \<lparr>pay_status = ''paid'', amount = cents 6480,
                      stripeSessionId = ''cs_test_c3'', stripePaymentIntentId = Some ''pi_c3'',
                      paidAt = Some 1700000500\<rparr>,
      status = ''confirmed'', trackingNumber = None, order_notes = None, statusHistory = []\<rparr>"

definition shopState :: state where
  "shopState = exampleCatalog\<lparr>orders := [pendingOrder, shippedOrder, paidOrder]\<rparr>"

text \<open>
  A stand-in for the processor's verification, for the examples: the event is accepted only
  when the signature header carries the secret.
\<close>

definition exampleConstructEvent :: "string \<Rightarrow> string option \<Rightarrow> string \<Rightarrow> string + event" where
  "exampleConstructEvent payload sig secret =
     (if sig = Some secret
      then Inr \<lparr>event_type = payload,
                data_object = \<lparr>obj_id = ''cs_test_a1'',
                                metadata_orderId = Some ''65c1a0000000000000000001'',
                                payment_intent = Some ''pi_a1''\<rparr>\<rparr>
      else Inl ''No signatures found matching the expected signature for payload'')"

definition forgedRequest :: webhookRequest where
  "forgedRequest =
     \<lparr>raw_body = ''checkout.session.completed'', stripe_signature = Some ''t=1,v1=forged''\<rparr>"

text \<open>Order lines naming a variant the catalog lacks, and more units than are in stock.\<close>

definition missingLine :: validatedItem where
  "missingLine =
     \<lparr>item_product = ''64b7f0c2a1d3e4f5a6b7c8d9'', item_title = ''Classic French'',
      item_price = catalogPrice, item_quantity = 1,
      item_variant = \<lparr>sel_size = ''XL'', sel_design = ''Classic French''\<rparr>\<rparr>"

definition bulkLine :: validatedItem where
  "bulkLine =
     \<lparr>item_product = ''64b7f0c2a1d3e4f5a6b7c8da'', item_title = ''Glitter Glam'',
      item_price = 30, item_quantity = 40,
      item_variant = \<lparr>sel_size = ''S'', sel_design = ''Gold Glitter''\<rparr>\<rparr>"

definition completedSession :: eventObject where
  "completedSession =
     \<lparr>obj_id = ''cs_test_a1'', metadata_orderId = Some ''65c1a0000000000000000001'',
      payment_intent = Some ''pi_a1''\<rparr>"

section \<open>Theorems\<close>

subsection \<open>JavaScript numbers\<close>

text \<open>
  Three known values: the number \<open>0.1\<close>, the sum \<open>0.1 + 0.2\<close>, which is not
  \<open>0.3\<close>, and \<open>Math.round(1.005 * 100) / 100\<close>, which is \<open>1\<close>.
\<close>

lemma fl_tenth: "fl (1 / 10) = 3602879701896397 / 36028797018963968"
  by code_simp

lemma js_add_tenths:
  "js_add (fl (1 / 10)) (fl (2 / 10)) = 1351079888211149 / 4503599627370496
   \<and> js_add (fl (1 / 10)) (fl (2 / 10)) \<noteq> fl (3 / 10)"
  by code_simp

lemma round2_1005: "round2 (fl (1005 / 1000)) = 1"
  by code_simp

subsection \<open>Cart validation\<close>

lemma validateItems_state: "snd (validateItems its acc sub st) = st"
  by (induction its arbitrary: acc sub)
     (auto split: option.splits sum.splits)

lemma validateItems_subtotal:
  "validateItems its acc sub st = (Inr (acc', sub'), st')
     \<Longrightarrow> sub' = foldl (\<lambda>s it. js_add s (linePrice st it)) sub its"
proof (induction its arbitrary: acc sub)
  case Nil
  then show ?case by simp
next
  case (Cons item rest)
  then show ?case
    by (auto simp: linePrice_def split: option.splits sum.splits if_splits)
qed

lemma validateItems_early:
  "validateItems its acc sub st = (Inl response, st') \<Longrightarrow> response \<noteq> CartOk r"
  by (induction its arbitrary: acc sub)
     (auto split: option.splits sum.splits if_splits)

lemma round2_zero: "round2 0 = 0"
  by code_simp

lemma round2_shippingFee: "round2 shippingFee = shippingFee"
  by code_simp

lemma pricey_line: "js_add 0 (js_mul catalogPrice 1) = catalogPrice"
  by code_simp

lemma pricey_shipping: "cartShipping catalogPrice = shippingFee"
  by code_simp

lemma pricey_round2_subtotal: "round2 catalogPrice = cents 2001"
  by code_simp

lemma pricey_round2_tax: "round2 (cartTax catalogPrice) = cents 160"
  by code_simp

lemma pricey_round2_total: "round2 (cartTotal catalogPrice) = cents 3161"
  by code_simp

lemma pricey_specTotal: "specTotal catalogPrice = cents 3160"
  by code_simp

lemma shippingFee_cents: "shippingFee = cents 999"
  by code_simp

lemma cents_3161_3160: "cents 3161 \<noteq> cents 3160"
  by code_simp

lemma glitter_line: "js_add 0 (js_mul 30 2) = 60"
  by code_simp

lemma glitter_round2_subtotal: "round2 60 = 60"
  by code_simp

lemma glitter_round2_tax: "round2 (cartTax 60) = cents 480"
  by code_simp

lemma glitter_round2_total: "round2 (cartTotal 60) = cents 6480"
  by code_simp

lemma pricey_valid: "requestValid priceyCart"
  by (simp add: requestValid_def priceyCart_def isMongoId_def isHexadecimal_def hexDigit_def)

lemma glitter_valid: "requestValid glitterCart"
  by (simp add: requestValid_def glitterCart_def isMongoId_def isHexadecimal_def hexDigit_def)

lemma pricey_loop:
  "validateItems priceyCart [] 0 exampleCatalog = (Inr (items priceyResult, catalogPrice), exampleCatalog)"
  by (simp add: priceyCart_def priceyResult_def exampleCatalog_def Product_findById_def
        findCartVariant_def variantMatches_def pricey_line)

lemma glitter_loop:
  "validateItems glitterCart [] 0 exampleCatalog = (Inr (items glitterResult, 60), exampleCatalog)"
  by (simp add: glitterCart_def glitterResult_def exampleCatalog_def Product_findById_def
        findCartVariant_def variantMatches_def glitter_line)

lemma pricey_subtotal: "cartSubtotal exampleCatalog priceyCart = catalogPrice"
  by (simp add: cartSubtotal_def linePrice_def priceyCart_def exampleCatalog_def
        Product_findById_def pricey_line)

lemma pricey_validates:
  "cartValidate priceyCart exampleCatalog = (CartOk priceyResult, exampleCatalog)"
  by (simp add: cartValidate_def pricey_valid pricey_loop pricey_round2_subtotal
        pricey_round2_tax pricey_round2_total pricey_shipping round2_shippingFee
        shippingFee_cents [symmetric] priceyResult_def)

lemma glitter_validates:
  "cartValidate glitterCart exampleCatalog = (CartOk glitterResult, exampleCatalog)"
  by (simp add: cartValidate_def glitter_valid glitter_loop glitter_round2_subtotal
        glitter_round2_tax glitter_round2_total cartShipping_def round2_zero glitterResult_def)

text \<open>
  C7. Cart validation is read-only: whatever the cart and the catalog, and whether the
  validation succeeds or fails, the store after the call is the store before it, so every
  product's variant stock is unchanged.
\<close>

theorem cartValidate_readonly:
  "snd (cartValidate its st) = st \<and> products (snd (cartValidate its st)) = products st"
proof -
  have "snd (cartValidate its st) = st"
    using validateItems_state [of its "[]" 0 st]
    by (auto simp: cartValidate_def split: prod.splits sum.splits)
  then show ?thesis by simp
qed

text \<open>
  C9. For every cart that validates successfully, the returned shipping charge is 0 when
  the subtotal (the running sum of unit price times quantity) is at least 50, and exactly
  9.99 otherwise.
\<close>

theorem cartValidate_shipping:
  assumes "cartValidate its st = (CartOk r, st')"
  shows "shipping r = (if 50 \<le> cartSubtotal st its then 0 else shippingFee)"
proof -
  from assms obtain vs sub where
    loop: "validateItems its [] 0 st = (Inr (vs, sub), st')"
    and r: "r = \<lparr>items = vs, subtotal = round2 sub, tax = round2 (cartTax sub),
                 shipping = round2 (cartShipping sub), total = round2 (cartTotal sub)\<rparr>"
    by (auto simp: cartValidate_def split: if_splits prod.splits sum.splits
             dest: validateItems_early)
  from validateItems_subtotal [OF loop] have "sub = cartSubtotal st its"
    by (simp add: cartSubtotal_def)
  with r show ?thesis
    by (simp add: cartShipping_def round2_zero round2_shippingFee)
qed

theorem cartValidate_shipping_witness:
  "cartValidate glitterCart exampleCatalog = (CartOk glitterResult, exampleCatalog)
   \<and> shipping glitterResult = (if 50 \<le> cartSubtotal exampleCatalog glitterCart then 0 else shippingFee)"
proof -
  have h: "cartValidate glitterCart exampleCatalog = (CartOk glitterResult, exampleCatalog)"
    by (rule glitter_validates)
  show ?thesis
    using h cartValidate_shipping [OF h] by simp
qed

text \<open>
  C3, as stated: the returned total equals
  \<open>round2(round2(subtotal) + round2(tax) + round2(shipping))\<close>. It fails for one unit of
  a product priced 20.014: the subtotal is 20.014, the tax 1.60112 and the shipping 9.99;
  the route returns \<open>round2(31.60512) = 31.61\<close>, the stated formula gives
  \<open>round2(20.01 + 1.60 + 9.99) = 31.60\<close>.
\<close>

theorem cartValidate_total_counterexample:
  "cartValidate priceyCart exampleCatalog = (CartOk priceyResult, exampleCatalog)
   \<and> total priceyResult = cents 3161
   \<and> specTotal (cartSubtotal exampleCatalog priceyCart) = cents 3160
   \<and> total priceyResult \<noteq> specTotal (cartSubtotal exampleCatalog priceyCart)"
  using pricey_validates pricey_subtotal pricey_specTotal cents_3161_3160
  by (simp add: priceyResult_def)

text \<open>
  C3, amended: for every cart that validates successfully, the returned total is
  \<open>round2\<close> of the unrounded sum subtotal + tax + shipping, rounded once; the returned
  subtotal, tax and shipping are \<open>round2\<close> of the unrounded subtotal, tax and shipping,
  each on its own.
\<close>

theorem cartValidate_total:
  assumes "cartValidate its st = (CartOk r, st')"
  shows "total r =
           round2 (js_add (js_add (cartSubtotal st its) (cartTax (cartSubtotal st its)))
                     (cartShipping (cartSubtotal st its)))
         \<and> subtotal r = round2 (cartSubtotal st its)
         \<and> tax r = round2 (cartTax (cartSubtotal st its))
         \<and> shipping r = round2 (cartShipping (cartSubtotal st its))"
proof -
  from assms obtain vs sub where
    loop: "validateItems its [] 0 st = (Inr (vs, sub), st')"
    and r: "r = \<lparr>items = vs, subtotal = round2 sub, tax = round2 (cartTax sub),
                 shipping = round2 (cartShipping sub), total = round2 (cartTotal sub)\<rparr>"
    by (auto simp: cartValidate_def split: if_splits prod.splits sum.splits
             dest: validateItems_early)
  from validateItems_subtotal [OF loop] have "sub = cartSubtotal st its"
    by (simp add: cartSubtotal_def)
  with r show ?thesis
    by (simp add: cartTotal_def)
qed

theorem cartValidate_total_witness:
  "cartValidate priceyCart exampleCatalog = (CartOk priceyResult, exampleCatalog)
   \<and> total priceyResult =
         round2 (js_add (js_add (cartSubtotal exampleCatalog priceyCart)
                           (cartTax (cartSubtotal exampleCatalog priceyCart)))
                   (cartShipping (cartSubtotal exampleCatalog priceyCart)))"
proof -
  have h: "cartValidate priceyCart exampleCatalog = (CartOk priceyResult, exampleCatalog)"
    by (rule pricey_validates)
  show ?thesis
    using h cartValidate_total [OF h] by simp
qed

subsection \<open>The document store\<close>

lemma find_updateFirst_same:
  "(\<And>x. P x \<Longrightarrow> P (f x)) \<Longrightarrow> find P (updateFirst P f xs) = map_option f (find P xs)"
  by (induction xs) auto

lemma find_updateFirst_other:
  "(\<And>x. P x \<Longrightarrow> \<not> Q x \<and> \<not> Q (f x)) \<Longrightarrow> find Q (updateFirst P f xs) = find Q xs"
  by (induction xs) auto

lemma map_updateFirst_found:
  "find P xs = Some x \<Longrightarrow> g y = g x \<Longrightarrow> map g (updateFirst P (\<lambda>_. y) xs) = map g xs"
  by (induction xs) (auto split: if_splits)

lemma find_in_set: "find P xs = Some x \<Longrightarrow> x \<in> set xs \<and> P x"
  by (induction xs) (auto split: if_splits)

lemma find_unique_key:
  "distinct (map k xs) \<Longrightarrow> x \<in> set xs \<Longrightarrow> find (\<lambda>z. k z = k x) xs = Some x"
  by (induction xs) (auto simp: image_iff)

lemma Order_findOne_byId:
  assumes "uniqueOrderIds st" and "Order_findOne query st = Some ord"
  shows "Order_findById (order_id ord) st = Some ord"
  using assms find_in_set [of query "orders st" ord]
  by (simp add: uniqueOrderIds_def Order_findOne_def Order_findById_def find_unique_key)

lemma Order_findOne_holds: "Order_findOne query st = Some ord \<Longrightarrow> query ord"
  by (simp add: Order_findOne_def find_in_set)

lemma Order_save_found:
  "Order_findById oid st = Some y \<Longrightarrow> order_id x = oid
     \<Longrightarrow> Order_findById oid (Order_save x st) = Some x"
  by (auto simp add: Order_findById_def Order_save_def find_updateFirst_same)

lemma Order_save_other:
  "oid \<noteq> order_id x \<Longrightarrow> Order_findById oid (Order_save x st) = Order_findById oid st"
  unfolding Order_findById_def Order_save_def
  by (simp, rule find_updateFirst_other) auto

lemma Order_save_products: "products (Order_save x st) = products st"
  by (simp add: Order_save_def)

lemma Order_save_map:
  "Order_findById oid st = Some x \<Longrightarrow> order_id y = oid \<Longrightarrow> g y = g x
     \<Longrightarrow> map g (orders (Order_save y st)) = map g (orders st)"
  by (auto simp add: Order_findById_def Order_save_def map_updateFirst_found)

lemma shopState_unique: "uniqueOrderIds shopState"
  by (simp add: uniqueOrderIds_def shopState_def pendingOrder_def shippedOrder_def paidOrder_def)

subsection \<open>The stock loop\<close>

lemma Product_save_orders: "orders (Product_save p st) = orders st"
  by (simp add: Product_save_def)

lemma updateItemStock_orders: "orders (updateItemStock item st) = orders st"
  by (simp add: updateItemStock_def Product_save_orders split: option.splits)

lemma updateProductStock_orders: "orders (updateProductStock its st) = orders st"
  by (induction its arbitrary: st) (simp_all add: updateItemStock_orders)

lemma list_all_updateFirst_found:
  "find P xs = Some v \<Longrightarrow> list_all R xs \<Longrightarrow> R (f v) \<Longrightarrow> list_all R (updateFirst P f xs)"
  by (induction xs) (auto split: if_splits)

lemma list_all_updateFirst_const:
  "list_all R xs \<Longrightarrow> R y \<Longrightarrow> list_all R (updateFirst P (\<lambda>_. y) xs)"
  by (induction xs) auto

lemma updateItemStock_nonneg:
  assumes "stockNonNegative st"
  shows "stockNonNegative (updateItemStock item st)"
proof (cases "Product_findById (item_product item) st")
  case None
  with assms show ?thesis by (simp add: updateItemStock_def)
next
  case (Some p)
  then have "p \<in> set (products st)"
    using find_in_set [of _ "products st" p] by (simp add: Product_findById_def)
  with assms have vs: "list_all (\<lambda>v. 0 \<le> stock v) (variants p)"
    by (simp add: stockNonNegative_def list_all_iff)
  show ?thesis
  proof (cases "find (itemMatches item) (variants p)")
    case None
    with Some assms show ?thesis by (simp add: updateItemStock_def)
  next
    case found: (Some v)
    show ?thesis
    proof (cases "item_quantity item \<le> stock v")
      case False
      with Some found assms show ?thesis by (simp add: updateItemStock_def)
    next
      case True
      then have "list_all (\<lambda>v. 0 \<le> stock v)
                   (updateFirst (itemMatches item) (\<lambda>v. v\<lparr>stock := stock v - item_quantity item\<rparr>)
                      (variants p))"
        using list_all_updateFirst_found [OF found vs] by simp
      then show ?thesis
        using Some found True assms
        by (simp add: updateItemStock_def stockNonNegative_def Product_save_def
              list_all_updateFirst_const)
    qed
  qed
qed

lemma updateProductStock_nonneg:
  "stockNonNegative st \<Longrightarrow> stockNonNegative (updateProductStock its st)"
  by (induction its arbitrary: st) (simp_all add: updateItemStock_nonneg)

lemma Order_save_nonneg: "stockNonNegative (Order_save x st) = stockNonNegative st"
  by (simp add: stockNonNegative_def Order_save_def)

lemma handleCheckoutSessionCompleted_nonneg:
  "stockNonNegative st \<Longrightarrow> stockNonNegative (handleCheckoutSessionCompleted session now st)"
  by (simp add: handleCheckoutSessionCompleted_def Let_def updateProductStock_nonneg
        Order_save_nonneg split: option.splits)

lemma updateItemStock_skip: "\<not> itemApplies item st \<Longrightarrow> updateItemStock item st = st"
  by (auto simp add: itemApplies_def itemStock_def updateItemStock_def split: option.splits)

lemma updateProductStock_append:
  "updateProductStock (xs @ ys) st = updateProductStock ys (updateProductStock xs st)"
  by (induction xs arbitrary: st) simp_all

lemma updateProductStock_skip:
  "\<not> itemApplies item (updateProductStock pre st)
     \<Longrightarrow> updateProductStock (pre @ item # post) st = updateProductStock (pre @ post) st"
  by (simp add: updateProductStock_append updateItemStock_skip)

lemma find_variant_update:
  "find (variantMatches sz' dz')
     (updateFirst (variantMatches sz dz) (\<lambda>v. v\<lparr>stock := stock v - q\<rparr>) vs)
   = (if sz' = sz \<and> dz' = dz
      then map_option (\<lambda>v. v\<lparr>stock := stock v - q\<rparr>) (find (variantMatches sz dz) vs)
      else find (variantMatches sz' dz') vs)"
  by (induction vs) (auto simp: variantMatches_def [abs_def])

lemma find_product_save:
  "product_id p = k \<Longrightarrow>
   find (\<lambda>x. product_id x = pid) (updateFirst (\<lambda>x. product_id x = k) (\<lambda>_. p) ps)
   = (if pid = k then map_option (\<lambda>_. p) (find (\<lambda>x. product_id x = pid) ps)
      else find (\<lambda>x. product_id x = pid) ps)"
  by (induction ps) auto

lemma Product_findById_id: "Product_findById pid st = Some p \<Longrightarrow> product_id p = pid"
  using find_in_set [of "\<lambda>p. product_id p = pid" "products st" p]
  by (simp add: Product_findById_def)

lemma itemStock_updateItemStock:
  "itemStock item' (updateItemStock item st)
   = (if sameVariant item item' \<and> itemApplies item st
      then map_option (\<lambda>n. n - item_quantity item) (itemStock item' st)
      else itemStock item' st)"
proof (cases "Product_findById (item_product item) st")
  case None
  then show ?thesis by (simp add: updateItemStock_def itemApplies_def itemStock_def)
next
  case (Some p)
  note pid = Product_findById_id [OF Some]
  show ?thesis
  proof (cases "find (itemMatches item) (variants p)")
    case None
    with Some show ?thesis by (simp add: updateItemStock_def itemApplies_def itemStock_def)
  next
    case found: (Some v)
    show ?thesis
    proof (cases "item_quantity item \<le> stock v")
      case False
      with Some found show ?thesis by (simp add: updateItemStock_def itemApplies_def itemStock_def)
    next
      case True
      have applies: "itemApplies item st"
        using Some found True by (simp add: itemApplies_def itemStock_def)
      show ?thesis
        using Some found True applies pid
        by (auto simp add: updateItemStock_def itemStock_def Product_findById_def Product_save_def
              find_product_save itemMatches_def find_variant_update sameVariant_def
              option.map_comp comp_def
            split: option.splits)
    qed
  qed
qed

lemma demand_nonneg: "\<forall>it\<in>set its. 0 \<le> item_quantity it \<Longrightarrow> 0 \<le> demand its item"
  by (induction its) (auto simp: demand_def)

lemma itemStock_sameVariant:
  assumes "sameVariant item it"
  shows "itemStock it st = itemStock item st"
proof -
  from assms have "itemMatches it = itemMatches item"
    by (simp add: sameVariant_def itemMatches_def)
  with assms show ?thesis
    by (simp add: sameVariant_def itemStock_def split: option.splits)
qed

lemma sameVariant_sym: "sameVariant a b = sameVariant b a"
  by (auto simp: sameVariant_def)

lemma demand_Cons:
  "demand (it # its) item = (if sameVariant item it then item_quantity it else 0) + demand its item"
  by (simp add: demand_def)

lemma itemStock_updateProductStock:
  "\<forall>it\<in>set its. 0 \<le> item_quantity it \<Longrightarrow> itemStock item st = Some n
     \<Longrightarrow> demand its item \<le> n
     \<Longrightarrow> itemStock item (updateProductStock its st) = Some (n - demand its item)"
proof (induction its arbitrary: st n)
  case Nil
  then show ?case by (simp add: demand_def)
next
  case (Cons it its)
  from Cons.prems(1) have rest: "\<forall>it\<in>set its. 0 \<le> item_quantity it" by simp
  from demand_nonneg [OF rest] have d0: "0 \<le> demand its item" .
  show ?case
  proof (cases "sameVariant item it")
    case True
    then have same: "itemStock it st = Some n"
      using Cons.prems(2) by (simp add: itemStock_sameVariant)
    from Cons.prems(3) True d0 have q: "item_quantity it \<le> n" and
      d: "demand its item \<le> n - item_quantity it"
      by (simp_all add: demand_Cons)
    from same q have "itemApplies it st" by (simp add: itemApplies_def)
    then have "itemStock item (updateItemStock it st) = Some (n - item_quantity it)"
      using True Cons.prems(2) by (simp add: itemStock_updateItemStock sameVariant_sym [of it item])
    from Cons.IH [OF rest this d] show ?thesis
      using True by (simp add: demand_Cons)
  next
    case False
    then have "itemStock item (updateItemStock it st) = Some n"
      using Cons.prems(2) by (simp add: itemStock_updateItemStock sameVariant_sym [of it item])
    from Cons.IH [OF rest this] Cons.prems(3) False show ?thesis
      by (simp add: demand_Cons)
  qed
qed

lemma Order_findById_updateProductStock:
  "Order_findById oid (updateProductStock its st) = Order_findById oid st"
  by (simp add: Order_findById_def updateProductStock_orders)

lemma itemStock_Order_save: "itemStock it (Order_save x st) = itemStock it st"
  by (simp add: itemStock_def Product_findById_def Order_save_def)

lemma demand_member:
  "\<forall>it\<in>set its. 0 \<le> item_quantity it \<Longrightarrow> item \<in> set its
     \<Longrightarrow> item_quantity item \<le> demand its item"
proof (induction its)
  case Nil
  then show ?case by simp
next
  case (Cons it its)
  from Cons.prems(1) have "\<forall>it\<in>set its. 0 \<le> item_quantity it" by simp
  from demand_nonneg [OF this] have "0 \<le> demand its item" .
  with Cons show ?case
    by (auto simp: demand_Cons sameVariant_def)
qed

lemma Order_findById_id: "Order_findById oid st = Some x \<Longrightarrow> order_id x = oid"
  using find_in_set [of "\<lambda>x. order_id x = oid" "orders st" x]
  by (simp add: Order_findById_def)

lemma handleCheckoutSessionCompleted_found:
  assumes "metadata_orderId session = Some oid" and "Order_findById oid st = Some ord"
  shows "handleCheckoutSessionCompleted session now st
         = updateProductStock (items ord)
             (Order_save
                (ord\<lparr>paymentInfo := (paymentInfo ord)
                        \<lparr>pay_status := ''paid'', stripePaymentIntentId := payment_intent session,
                         paidAt := Some now\<rparr>,
                      status := ''confirmed''\<rparr>) st)"
  using assms by (simp add: handleCheckoutSessionCompleted_def Let_def)

lemma handleCheckoutSessionCompleted_order:
  assumes "metadata_orderId session = Some oid" and "Order_findById oid st = Some ord"
  shows "Order_findById oid (handleCheckoutSessionCompleted session now st)
         = Some (ord\<lparr>paymentInfo := (paymentInfo ord)
                        \<lparr>pay_status := ''paid'', stripePaymentIntentId := payment_intent session,
                         paidAt := Some now\<rparr>,
                      status := ''confirmed''\<rparr>)"
  using assms Order_findById_id [OF assms(2)]
  by (simp add: handleCheckoutSessionCompleted_found Order_findById_updateProductStock
        Order_save_found)

lemma handleCheckoutSessionCompleted_itemStock:
  assumes "metadata_orderId session = Some oid" and "Order_findById oid st = Some ord"
    and "\<forall>it\<in>set (items ord). 0 \<le> item_quantity it"
    and "itemStock item st = Some n" and "demand (items ord) item \<le> n"
  shows "itemStock item (handleCheckoutSessionCompleted session now st)
         = Some (n - demand (items ord) item)"
  using assms
  by (simp add: handleCheckoutSessionCompleted_found itemStock_updateProductStock
        itemStock_Order_save)

subsection \<open>Webhook endpoint and payment handlers\<close>

text \<open>
  C4. For every webhook request whose signature does not verify against the raw payload,
  the endpoint answers 400 with the verification error and no handler runs: the orders and
  the products after the call are those before it.
\<close>

theorem stripeWebhook_invalid_signature:
  assumes "constructEvent (raw_body req) (stripe_signature req) webhookSecret = Inl message"
  shows "stripeWebhook constructEvent webhookSecret req now st
           = (WebhookError (''Webhook Error: '' @ message), st)"
  using assms by (simp add: stripeWebhook_def)

theorem stripeWebhook_invalid_signature_witness:
  "exampleConstructEvent (raw_body forgedRequest) (stripe_signature forgedRequest) ''whsec_test''
     = Inl ''No signatures found matching the expected signature for payload''
   \<and> stripeWebhook exampleConstructEvent ''whsec_test'' forgedRequest 1700001000 shopState
       = (WebhookError ''Webhook Error: No signatures found matching the expected signature for payload'',
          shopState)"
proof -
  have h: "exampleConstructEvent (raw_body forgedRequest) (stripe_signature forgedRequest) ''whsec_test''
           = Inl ''No signatures found matching the expected signature for payload''"
    by (simp add: exampleConstructEvent_def forgedRequest_def)
  show ?thesis
    using h stripeWebhook_invalid_signature
      [where constructEvent = exampleConstructEvent and req = forgedRequest
         and webhookSecret = "''whsec_test''" and now = 1700001000 and st = shopState, OF h]
    by simp
qed

text \<open>
  C5. For every order found by its payment-intent reference, a "payment intent succeeded"
  event sets the payment status to paid and records the paid timestamp; the order status
  becomes confirmed if it was pending, and any other status is kept.
\<close>

theorem handlePaymentIntentSucceeded_status:
  assumes "uniqueOrderIds st"
    and "Order_findOne (\<lambda>x. stripePaymentIntentId (paymentInfo x) = Some (obj_id paymentIntent)) st
           = Some ord"
  shows "Order_findById (order_id ord) (handlePaymentIntentSucceeded paymentIntent now st)
           = Some (ord\<lparr>paymentInfo := (paymentInfo ord)\<lparr>pay_status := ''paid'', paidAt := Some now\<rparr>,
                        status := (if status ord = ''pending'' then ''confirmed'' else status ord)\<rparr>)"
  using assms Order_findOne_byId [OF assms]
  by (simp add: handlePaymentIntentSucceeded_def Order_save_found)

theorem handlePaymentIntentSucceeded_status_witness:
  "uniqueOrderIds shopState
   \<and> Order_findOne (\<lambda>x. stripePaymentIntentId (paymentInfo x)
                          = Some (obj_id \<lparr>obj_id = ''pi_b2'', metadata_orderId = None, payment_intent = None\<rparr>))
         shopState = Some shippedOrder
   \<and> Order_findById ''65c1a0000000000000000002''
         (handlePaymentIntentSucceeded
            \<lparr>obj_id = ''pi_b2'', metadata_orderId = None, payment_intent = None\<rparr> 1700001000 shopState)
       = Some (shippedOrder\<lparr>paymentInfo := (paymentInfo shippedOrder)\<lparr>paidAt := Some 1700001000\<rparr>\<rparr>)"
proof -
  have h: "Order_findOne (\<lambda>x. stripePaymentIntentId (paymentInfo x)
                          = Some (obj_id \<lparr>obj_id = ''pi_b2'', metadata_orderId = None, payment_intent = None\<rparr>))
             shopState = Some shippedOrder"
    by (simp add: Order_findOne_def shopState_def pendingOrder_def shippedOrder_def)
  show ?thesis
    using shopState_unique h
      handlePaymentIntentSucceeded_status [OF shopState_unique h, of 1700001000]
    by (simp add: shippedOrder_def)
qed

subsection \<open>Order routes\<close>

text \<open>
  C6. For every order owned by the requesting user, cancellation succeeds and sets the
  status to cancelled exactly when the current status is pending or confirmed; with any
  other status the request is rejected with 400 and nothing changes.
\<close>

theorem cancelOrder_transition:
  assumes "uniqueOrderIds st"
    and "Order_findOne (\<lambda>x. order_id x = oid \<and> user x = uid) st = Some ord"
  shows "(status ord \<in> {''pending'', ''confirmed''} \<longrightarrow>
            fst (cancelOrder oid uid st) = Cancelled oid ''cancelled''
            \<and> Order_findById oid (snd (cancelOrder oid uid st)) = Some (ord\<lparr>status := ''cancelled''\<rparr>))
         \<and> (status ord \<notin> {''pending'', ''confirmed''} \<longrightarrow>
            cancelOrder oid uid st = (OrderBadRequest ''Order cannot be cancelled at this stage'', st))"
proof -
  from Order_findOne_holds [OF assms(2)] have oid: "order_id ord = oid" by simp
  from Order_findOne_byId [OF assms] oid have byId: "Order_findById oid st = Some ord" by simp
  show ?thesis
    using assms(2) oid byId by (simp add: cancelOrder_def Let_def Order_save_found)
qed

theorem cancelOrder_transition_witness:
  "uniqueOrderIds shopState
   \<and> Order_findOne (\<lambda>x. order_id x = ''65c1a0000000000000000001'' \<and> user x = ''65b1a00000000000000000aa'')
         shopState = Some pendingOrder
   \<and> status pendingOrder \<in> {''pending'', ''confirmed''}
   \<and> fst (cancelOrder ''65c1a0000000000000000001'' ''65b1a00000000000000000aa'' shopState)
       = Cancelled ''65c1a0000000000000000001'' ''cancelled''
   \<and> Order_findById ''65c1a0000000000000000001''
         (snd (cancelOrder ''65c1a0000000000000000001'' ''65b1a00000000000000000aa'' shopState))
       = Some (pendingOrder\<lparr>status := ''cancelled''\<rparr>)
   \<and> Order_findOne (\<lambda>x. order_id x = ''65c1a0000000000000000002'' \<and> user x = ''65b1a00000000000000000bb'')
         shopState = Some shippedOrder
   \<and> status shippedOrder \<notin> {''pending'', ''confirmed''}
   \<and> cancelOrder ''65c1a0000000000000000002'' ''65b1a00000000000000000bb'' shopState
       = (OrderBadRequest ''Order cannot be cancelled at this stage'', shopState)"
proof -
  have a: "Order_findOne (\<lambda>x. order_id x = ''65c1a0000000000000000001'' \<and> user x = ''65b1a00000000000000000aa'')
             shopState = Some pendingOrder"
    by (simp add: Order_findOne_def shopState_def pendingOrder_def)
  have b: "Order_findOne (\<lambda>x. order_id x = ''65c1a0000000000000000002'' \<and> user x = ''65b1a00000000000000000bb'')
             shopState = Some shippedOrder"
    by (simp add: Order_findOne_def shopState_def pendingOrder_def shippedOrder_def)
  have sa: "status pendingOrder \<in> {''pending'', ''confirmed''}"
    by (simp add: pendingOrder_def)
  have sb: "status shippedOrder \<notin> {''pending'', ''confirmed''}"
    by (simp add: shippedOrder_def)
  show ?thesis
    using a b sa sb shopState_unique
      cancelOrder_transition [OF shopState_unique a]
      cancelOrder_transition [OF shopState_unique b]
    by simp
qed

text \<open>
  C10. For every order in pending or confirmed status, cancellation by its owner changes
  the status field of that order and nothing else: the stored order is the old one with
  status cancelled, the payment sub-records, line items, monetary figures and status
  histories of all orders are as before, and so are all products with their variant
  stock. No refund is recorded and no stock restored, also for a paid order.
\<close>

theorem cancelOrder_frame:
  assumes "uniqueOrderIds st"
    and "Order_findOne (\<lambda>x. order_id x = oid \<and> user x = uid) st = Some ord"
    and "status ord \<in> {''pending'', ''confirmed''}"
  shows "Order_findById oid (snd (cancelOrder oid uid st)) = Some (ord\<lparr>status := ''cancelled''\<rparr>)
         \<and> map paymentInfo (orders (snd (cancelOrder oid uid st))) = map paymentInfo (orders st)
         \<and> map items (orders (snd (cancelOrder oid uid st))) = map items (orders st)
         \<and> map (\<lambda>x. (subtotal x, tax x, shipping x, total x)) (orders (snd (cancelOrder oid uid st)))
             = map (\<lambda>x. (subtotal x, tax x, shipping x, total x)) (orders st)
         \<and> map statusHistory (orders (snd (cancelOrder oid uid st))) = map statusHistory (orders st)
         \<and> products (snd (cancelOrder oid uid st)) = products st"
proof -
  from Order_findOne_holds [OF assms(2)] have oid: "order_id ord = oid" by simp
  from Order_findOne_byId [OF assms(1,2)] oid have byId: "Order_findById oid st = Some ord" by simp
  have st': "snd (cancelOrder oid uid st) = Order_save (ord\<lparr>status := ''cancelled''\<rparr>) st"
    using assms(2,3) by (auto simp add: cancelOrder_def Let_def)
  show ?thesis
    unfolding st'
    using byId oid
    by (simp add: Order_save_found Order_save_map [OF byId] Order_save_products)
qed

theorem cancelOrder_frame_witness:
  "uniqueOrderIds shopState
   \<and> Order_findOne (\<lambda>x. order_id x = ''65c1a0000000000000000003'' \<and> user x = ''65b1a00000000000000000aa'')
         shopState = Some paidOrder
   \<and> status paidOrder \<in> {''pending'', ''confirmed''}
   \<and> pay_status (paymentInfo paidOrder) = ''paid''
   \<and> Order_findById ''65c1a0000000000000000003''
         (snd (cancelOrder ''65c1a0000000000000000003'' ''65b1a00000000000000000aa'' shopState))
       = Some (paidOrder\<lparr>status := ''cancelled''\<rparr>)
   \<and> map paymentInfo
         (orders (snd (cancelOrder ''65c1a0000000000000000003'' ''65b1a00000000000000000aa'' shopState)))
       = map paymentInfo (orders shopState)
   \<and> products (snd (cancelOrder ''65c1a0000000000000000003'' ''65b1a00000000000000000aa'' shopState))
       = products shopState"
proof -
  have c: "Order_findOne (\<lambda>x. order_id x = ''65c1a0000000000000000003'' \<and> user x = ''65b1a00000000000000000aa'')
             shopState = Some paidOrder"
    by (simp add: Order_findOne_def shopState_def pendingOrder_def shippedOrder_def paidOrder_def)
  have sc: "status paidOrder \<in> {''pending'', ''confirmed''}"
    by (simp add: paidOrder_def)
  have pc: "pay_status (paymentInfo paidOrder) = ''paid''"
    by (simp add: paidOrder_def)
  show ?thesis
    using c sc pc shopState_unique cancelOrder_frame [OF shopState_unique c sc]
    by simp
qed

subsection \<open>Stock reconciliation\<close>

text \<open>
  C1. For every order whose lines find stock enough for both deliveries, delivering the
  same "checkout session completed" event twice leaves the payment status paid and the
  order status confirmed, as one delivery does, and takes the quantity of every line from
  its variant's stock a second time: after one delivery the stock is down by the order's
  demand for that variant, after two by twice that.
\<close>

theorem checkout_redelivery:
  assumes "metadata_orderId session = Some oid"
    and "Order_findById oid st = Some ord"
    and "\<forall>it\<in>set (items ord). 1 \<le> item_quantity it"
    and "\<forall>it\<in>set (items ord). \<exists>n. itemStock it st = Some n \<and> 2 * demand (items ord) it \<le> n"
  shows "map_option (\<lambda>x. (pay_status (paymentInfo x), status x))
           (Order_findById oid (handleCheckoutSessionCompleted session t1 st))
         = Some (''paid'', ''confirmed'')
       \<and> map_option (\<lambda>x. (pay_status (paymentInfo x), status x))
           (Order_findById oid
              (handleCheckoutSessionCompleted session t2 (handleCheckoutSessionCompleted session t1 st)))
         = Some (''paid'', ''confirmed'')
       \<and> (\<forall>it\<in>set (items ord).
             1 \<le> demand (items ord) it
             \<and> itemStock it (handleCheckoutSessionCompleted session t1 st)
                 = map_option (\<lambda>n. n - demand (items ord) it) (itemStock it st)
             \<and> itemStock it
                   (handleCheckoutSessionCompleted session t2
                      (handleCheckoutSessionCompleted session t1 st))
                 = map_option (\<lambda>n. n - 2 * demand (items ord) it) (itemStock it st))"
proof -
  let ?h1 = "handleCheckoutSessionCompleted session t1 st"
  let ?ord1 = "ord\<lparr>paymentInfo := (paymentInfo ord)
                        \<lparr>pay_status := ''paid'', stripePaymentIntentId := payment_intent session,
                         paidAt := Some t1\<rparr>,
                      status := ''confirmed''\<rparr>"
  have o1: "Order_findById oid ?h1 = Some ?ord1"
    by (rule handleCheckoutSessionCompleted_order [OF assms(1,2)])
  have nonneg: "\<forall>it\<in>set (items ord). 0 \<le> item_quantity it"
    using assms(3) by auto
  have nonneg1: "\<forall>it\<in>set (items ?ord1). 0 \<le> item_quantity it"
    using nonneg by simp
  have first: "map_option (\<lambda>x. (pay_status (paymentInfo x), status x)) (Order_findById oid ?h1)
               = Some (''paid'', ''confirmed'')"
    by (simp add: o1)
  have second: "map_option (\<lambda>x. (pay_status (paymentInfo x), status x))
                  (Order_findById oid (handleCheckoutSessionCompleted session t2 ?h1))
                = Some (''paid'', ''confirmed'')"
    by (simp add: handleCheckoutSessionCompleted_order [OF assms(1) o1])
  have stock: "1 \<le> demand (items ord) it
             \<and> itemStock it ?h1 = map_option (\<lambda>n. n - demand (items ord) it) (itemStock it st)
             \<and> itemStock it (handleCheckoutSessionCompleted session t2 ?h1)
                 = map_option (\<lambda>n. n - 2 * demand (items ord) it) (itemStock it st)"
    if mem: "it \<in> set (items ord)" for it
  proof -
    from assms(4) mem obtain n where n: "itemStock it st = Some n"
      and enough: "2 * demand (items ord) it \<le> n" by blast
    from demand_member [OF nonneg mem] assms(3) mem have d1: "1 \<le> demand (items ord) it"
      by force
    from enough d1 have once: "demand (items ord) it \<le> n" by simp
    have s1: "itemStock it ?h1 = Some (n - demand (items ord) it)"
      by (rule handleCheckoutSessionCompleted_itemStock [OF assms(1,2) nonneg n once])
    from enough have again: "demand (items ?ord1) it \<le> n - demand (items ord) it" by simp
    have "itemStock it (handleCheckoutSessionCompleted session t2 ?h1)
          = Some (n - demand (items ord) it - demand (items ?ord1) it)"
      by (rule handleCheckoutSessionCompleted_itemStock [OF assms(1) o1 nonneg1 s1 again])
    with s1 n d1 show ?thesis by simp
  qed
  from first second stock show ?thesis by blast
qed

theorem checkout_redelivery_witness:
  "metadata_orderId completedSession = Some ''65c1a0000000000000000001''
   \<and> Order_findById ''65c1a0000000000000000001'' shopState = Some pendingOrder
   \<and> items pendingOrder = [classicLine]
   \<and> item_quantity classicLine = 2
   \<and> demand (items pendingOrder) classicLine = 2
   \<and> itemStock classicLine shopState = Some 35
   \<and> itemStock classicLine (handleCheckoutSessionCompleted completedSession 1700001000 shopState)
       = Some 33
   \<and> itemStock classicLine
         (handleCheckoutSessionCompleted completedSession 1700001060
            (handleCheckoutSessionCompleted completedSession 1700001000 shopState))
       = Some 31
   \<and> map_option (\<lambda>x. (pay_status (paymentInfo x), status x))
         (Order_findById ''65c1a0000000000000000001''
            (handleCheckoutSessionCompleted completedSession 1700001060
               (handleCheckoutSessionCompleted completedSession 1700001000 shopState)))
       = Some (''paid'', ''confirmed'')"
proof -
  have m: "metadata_orderId completedSession = Some ''65c1a0000000000000000001''"
    by (simp add: completedSession_def)
  have f: "Order_findById ''65c1a0000000000000000001'' shopState = Some pendingOrder"
    by (simp add: Order_findById_def shopState_def pendingOrder_def)
  have its: "items pendingOrder = [classicLine]"
    by (simp add: pendingOrder_def)
  have q: "item_quantity classicLine = 2"
    by (simp add: classicLine_def)
  have d: "demand (items pendingOrder) classicLine = 2"
    by (simp add: its demand_def sameVariant_def q)
  have n: "itemStock classicLine shopState = Some 35"
    by (simp add: itemStock_def Product_findById_def shopState_def exampleCatalog_def
          classicLine_def itemMatches_def variantMatches_def)
  have h3: "\<forall>it\<in>set (items pendingOrder). 1 \<le> item_quantity it"
    by (simp add: its q)
  have h4: "\<forall>it\<in>set (items pendingOrder).
              \<exists>n. itemStock it shopState = Some n \<and> 2 * demand (items pendingOrder) it \<le> n"
    using n d by (simp add: its)
  show ?thesis
    using m f its q d n
      checkout_redelivery [OF m f h3 h4, of 1700001000 1700001060]
    by simp
qed

text \<open>
  C2. Processing a "checkout session completed" event never drives a variant's stock below
  zero: if no stock is negative before, none is after. A line is applied only under the
  guard (the product and the variant exist and the stock is at least the quantity); a line
  that fails the guard when its turn comes is skipped, and the lines before and after it
  are processed as if it were not there.
\<close>

theorem checkout_stock_guard:
  assumes "stockNonNegative st"
  shows "stockNonNegative (handleCheckoutSessionCompleted session now st)
       \<and> (\<not> itemApplies item (updateProductStock pre st) \<longrightarrow>
            updateProductStock (pre @ item # post) st = updateProductStock (pre @ post) st)"
  using assms
  by (simp add: handleCheckoutSessionCompleted_nonneg updateProductStock_skip)

theorem checkout_stock_guard_witness:
  "stockNonNegative shopState
   \<and> stockNonNegative (handleCheckoutSessionCompleted completedSession 1700001000 shopState)
   \<and> \<not> itemApplies missingLine (updateProductStock [glitterLine] shopState)
   \<and> updateProductStock ([glitterLine] @ missingLine # [classicLine]) shopState
       = updateProductStock ([glitterLine] @ [classicLine]) shopState
   \<and> \<not> itemApplies bulkLine (updateProductStock [] shopState)
   \<and> updateProductStock ([] @ bulkLine # [classicLine]) shopState
       = updateProductStock ([] @ [classicLine]) shopState"
proof -
  have nn: "stockNonNegative shopState"
    by (simp add: stockNonNegative_def shopState_def exampleCatalog_def)
  have miss: "\<not> itemApplies missingLine (updateProductStock [glitterLine] shopState)"
    by (simp add: itemApplies_def itemStock_def updateItemStock_def Product_findById_def
          Product_save_def shopState_def exampleCatalog_def glitterLine_def missingLine_def
          itemMatches_def variantMatches_def)
  have bulk: "\<not> itemApplies bulkLine (updateProductStock [] shopState)"
    by (simp add: itemApplies_def itemStock_def Product_findById_def
          shopState_def exampleCatalog_def bulkLine_def itemMatches_def variantMatches_def)
  show ?thesis
    using nn miss bulk
      checkout_stock_guard [OF nn, of completedSession 1700001000 missingLine "[glitterLine]" "[classicLine]"]
      checkout_stock_guard [OF nn, of completedSession 1700001000 bulkLine "[]" "[classicLine]"]
    by simp
qed

end
